theory Spec2Isabelle
  imports Complex_Main
begin

section \<open>Data model\<close>

text \<open>
  The class \<open>CurrencyConverter\<close> of \<^verbatim>\<open>src/main.py\<close> keeps its state in files below
  \<^verbatim>\<open>~/.currency_cache\<close>: the rolling cache \<^verbatim>\<open>exchange_rates.json\<close> and one snapshot file
  \<^verbatim>\<open>historical/<base>_<YYYY-MM-DD>.json\<close> per base currency and calendar day.

  Conventions of the embedding:
  \<^item> a currency code is a \<open>string\<close>;
  \<^item> a Python number that the code only stores, copies and multiplies (a rate, an amount)
    is a value of an arbitrary type \<open>'v\<close>; the product of line 161 is written \<open>*\<close> in the
    class \<open>times\<close>, which has no law, so nothing proved here rests on arithmetic, exact or
    rounded; the example states write their rates as real numbers;
  \<^item> the value under \<^verbatim>\<open>"rates"\<close> is whatever JSON the provider or the file holds
    (\<open>rates_value\<close>): an object, an array, a string, or a scalar;
  \<^item> time stamps and the clock are reals (epoch seconds), and the time-out test is the
    comparison of reals;
  \<^item> a calendar date is its day number (\<open>int\<close>); \<^verbatim>\<open>today - timedelta(days=i)\<close> is
    \<open>today - i\<close>, and the text \<^verbatim>\<open>strftime("%Y-%m-%d")\<close> of a date stands for the date;
  \<^item> a JSON file is text that \<^verbatim>\<open>json.load\<close> rejects with \<^verbatim>\<open>JSONDecodeError\<close>
    (\<open>Malformed\<close>), or a parsed document (\<open>Doc\<close>), or a file that cannot be read at all
    (\<open>Unreadable\<close>): \<^verbatim>\<open>open\<close> raises an \<^verbatim>\<open>OSError\<close>, or the bytes are not text in the
    platform's encoding and reading them raises \<^verbatim>\<open>UnicodeDecodeError\<close>, which is a
    \<^verbatim>\<open>ValueError\<close> but not a \<^verbatim>\<open>JSONDecodeError\<close>;
  \<^item> a parsed cache file is a JSON object from base currencies to objects, and a parsed
    snapshot is a JSON object; either of the keys \<^verbatim>\<open>"timestamp"\<close> and \<^verbatim>\<open>"rates"\<close> may be
    missing (\<open>None\<close>), which is what raises \<^verbatim>\<open>KeyError\<close> in the source; a time stamp that
    is present is a number. A snapshot or a provider body that is not an object behaves as
    one without \<^verbatim>\<open>"rates"\<close>, since the index raises and the same handler catches it; a
    cache file that parses to something else than an object of objects is not modelled;
  \<^item> \<^verbatim>\<open>os.path.exists\<close> is definedness of the file in the store;
  \<^item> opening a file for writing either succeeds, and the write is then whole, or raises an
    \<^verbatim>\<open>OSError\<close> and leaves the file as it was; which of the two happens is given by the
    environment, for the cache file and for today's snapshot file; a write that fails part
    way is not modelled;
  \<^item> one call is taken to be instantaneous: every reading of \<^verbatim>\<open>time.time()\<close> and
    \<^verbatim>\<open>datetime.now()\<close> inside it yields the \<open>now\<close> and \<open>today\<close> of the environment.
\<close>

type_synonym currency = string

type_synonym day = int

text \<open>
  The value under \<^verbatim>\<open>"rates"\<close>. \<open>Table\<close> is a JSON object from codes to numbers, the rate
  table of the data model. The other shapes are what the code does not exclude: a JSON
  array, given by those of its elements that are strings (no other element can equal a
  currency code); a JSON string; and \<open>Scalar\<close>, that is null, a number or a boolean.
\<close>

datatype 'v rates_value =
  Table "currency \<rightharpoonup> 'v" | Elements "string list" | Text string | Scalar

record 'v cache_entry =
  timestamp :: "real option"
  rates :: "'v rates_value option"

datatype 'a json_file = Unreadable | Malformed | Doc 'a

record 'v store =
  cache_file :: "(currency \<rightharpoonup> 'v cache_entry) json_file option"
  historical :: "currency \<times> day \<rightharpoonup> 'v cache_entry json_file"

text \<open>
  The upstream provider, as \<open>get_exchange_rate\<close> sees it: \<open>Failed\<close> when \<^verbatim>\<open>requests.get\<close>,
  \<^verbatim>\<open>raise_for_status\<close> or \<^verbatim>\<open>response.json()\<close> raises; otherwise the body, whose \<^verbatim>\<open>"rates"\<close>
  field may be missing (\<open>Body None\<close>: \<^verbatim>\<open>data["rates"]\<close> raises).
\<close>

datatype 'v response = Failed | Body "'v rates_value option"

record 'v env =
  now :: real
  today :: day
  provider :: "currency \<Rightarrow> 'v response"
  cache_writable :: bool
  snapshot_writable :: bool

text \<open>
  The source raises plain \<^verbatim>\<open>Exception\<close>s that differ in their message only:
  \<^verbatim>\<open>"Error fetching exchange rates: ..."\<close>, \<^verbatim>\<open>"Currency '<target>' not found"\<close> and the wrapper
  \<^verbatim>\<open>"Conversion error: <inner>"\<close>. \<open>ReadError\<close> is the exception of reading an unreadable
  file, where no handler of the source catches it, and \<open>WriteError\<close> the one of a file
  that cannot be opened for writing; \<open>TypeError\<close> and \<open>KeyError\<close> are Python's own, raised
  by \<^verbatim>\<open>in\<close> and by indexing.
\<close>

datatype error =
  ReadError | WriteError | TypeError | KeyError | FetchingError | CurrencyNotFound currency
  | ConversionError error

definition cache_timeout :: real where
  "cache_timeout = 3600"

section \<open>Python's membership test and indexing\<close>

text \<open>\<^verbatim>\<open>t in s\<close> for two strings: \<open>t\<close> occurs in \<open>s\<close> as a contiguous piece.\<close>

fun starts_with :: "string \<Rightarrow> string \<Rightarrow> bool" where
  "starts_with [] s = True"
| "starts_with (c # t) [] = False"
| "starts_with (c # t) (d # s) = (c = d \<and> starts_with t s)"

fun substring :: "string \<Rightarrow> string \<Rightarrow> bool" where
  "substring t [] = (t = [])"
| "substring t (d # s) = (starts_with t (d # s) \<or> substring t s)"

text \<open>
  \<^verbatim>\<open>target in value\<close>: a key of the object, an element of the array, a piece of the string;
  a scalar is not iterable and raises.
\<close>

primrec contains :: "'v rates_value \<Rightarrow> currency \<Rightarrow> error + bool" where
  "contains (Table tbl) target = Inr (tbl target \<noteq> None)"
| "contains (Elements xs) target = Inr (target \<in> set xs)"
| "contains (Text s) target = Inr (substring target s)"
| "contains Scalar target = Inl TypeError"

text \<open>
  \<^verbatim>\<open>value[target]\<close> with a string for the index: the value under the key of an object;
  arrays and strings take integer indices only, and a scalar takes none.
\<close>

primrec item :: "'v rates_value \<Rightarrow> currency \<Rightarrow> error + 'v" where
  "item (Table tbl) target = (case tbl target of None \<Rightarrow> Inl KeyError | Some r \<Rightarrow> Inr r)"
| "item (Elements xs) target = Inl TypeError"
| "item (Text s) target = Inl TypeError"
| "item Scalar target = Inl TypeError"

section \<open>The rate store\<close>

text \<open>
  Lines 112 to 119 of \<open>_cache_rates\<close>: the dictionary the write starts from. It is empty
  when the cache file does not exist or does not parse; the handler there catches
  \<^verbatim>\<open>JSONDecodeError\<close> only, so an unreadable file raises.
\<close>

definition load_cache :: "'v store \<Rightarrow> error + (currency \<rightharpoonup> 'v cache_entry)" where
  "load_cache fs =
     (case cache_file fs of
        None \<Rightarrow> Inr Map.empty
      | Some Unreadable \<Rightarrow> Inl ReadError
      | Some Malformed \<Rightarrow> Inr Map.empty
      | Some (Doc cache_data) \<Rightarrow> Inr cache_data)"

text \<open>
  \<open>_cache_rates\<close>: read the whole file, set the entry of the base, write the whole file.
  This is the method when the file opens for writing.
\<close>

definition cache_rates ::
  "'v env \<Rightarrow> 'v store \<Rightarrow> currency \<Rightarrow> 'v rates_value \<Rightarrow> error + 'v store" where
  "cache_rates e fs base_currency tbl =
     (case load_cache fs of
        Inl err \<Rightarrow> Inl err
      | Inr cache_data \<Rightarrow>
          Inr (fs\<lparr>cache_file :=
                 Some (Doc (cache_data
                   (base_currency \<mapsto> \<lparr>timestamp = Some (now e), rates = Some tbl\<rparr>)))\<rparr>))"

text \<open>
  \<open>_store_historical\<close>: nothing is written when today's file of the base exists. This is
  the method when the file opens for writing.
\<close>

definition store_historical ::
  "'v env \<Rightarrow> 'v store \<Rightarrow> currency \<Rightarrow> 'v rates_value \<Rightarrow> 'v store" where
  "store_historical e fs base_currency tbl =
     (case historical fs (base_currency, today e) of
        Some existing \<Rightarrow> fs
      | None \<Rightarrow>
          fs\<lparr>historical :=
               (historical fs)((base_currency, today e) \<mapsto>
                  Doc \<lparr>timestamp = Some (now e), rates = Some tbl\<rparr>)\<rparr>)"

text \<open>
  The two methods as \<open>get_exchange_rate\<close> calls them, with the \<^verbatim>\<open>open(..., "w")\<close> of lines 128
  and 140 that may raise. \<open>_cache_rates\<close> opens after it has read; \<open>_store_historical\<close>
  opens only when today's file does not exist.
\<close>

definition cache_rates_call ::
  "'v env \<Rightarrow> 'v store \<Rightarrow> currency \<Rightarrow> 'v rates_value \<Rightarrow> error + 'v store" where
  "cache_rates_call e fs base_currency tbl =
     (case cache_rates e fs base_currency tbl of
        Inl err \<Rightarrow> Inl err
      | Inr cached \<Rightarrow> if cache_writable e then Inr cached else Inl WriteError)"

definition store_historical_call ::
  "'v env \<Rightarrow> 'v store \<Rightarrow> currency \<Rightarrow> 'v rates_value \<Rightarrow> error + 'v store" where
  "store_historical_call e fs base_currency tbl =
     (if historical fs (base_currency, today e) = None \<and> \<not> snapshot_writable e
      then Inl WriteError
      else Inr (store_historical e fs base_currency tbl))"

section \<open>Rates and conversion\<close>

text \<open>
  \<open>get_exchange_rate\<close>. The cache is consulted first; \<^verbatim>\<open>JSONDecodeError\<close> and \<^verbatim>\<open>KeyError\<close>
  there fall through to the fetch, and any other exception of the read leaves the function,
  since \<^verbatim>\<open>open\<close> stands outside the \<^verbatim>\<open>try\<close> and the handler names those two classes only.
  Every exception of the fetch, including a body without \<^verbatim>\<open>"rates"\<close> and a failure of
  \<open>_cache_rates\<close> or of \<open>_store_historical\<close>, is raised again as the fetching error; when
  it is \<open>_store_historical\<close> that fails, the cache file has been rewritten already. The
  value under \<^verbatim>\<open>"rates"\<close> is returned, cached and stored as it is, whatever its shape.
  The result is paired with the store the call leaves behind.
\<close>

definition get_exchange_rate ::
  "'v env \<Rightarrow> 'v store \<Rightarrow> currency \<Rightarrow> (error + 'v rates_value) \<times> 'v store" where
  "get_exchange_rate e fs base_currency =
     (let fetch =
        (case provider e base_currency of
           Failed \<Rightarrow> (Inl FetchingError, fs)
         | Body None \<Rightarrow> (Inl FetchingError, fs)
         | Body (Some tbl) \<Rightarrow>
             (case cache_rates_call e fs base_currency tbl of
                Inl err \<Rightarrow> (Inl FetchingError, fs)
              | Inr cached \<Rightarrow>
                  (case store_historical_call e cached base_currency tbl of
                     Inl err \<Rightarrow> (Inl FetchingError, cached)
                   | Inr stored \<Rightarrow> (Inr tbl, stored))))
      in
      case cache_file fs of
        None \<Rightarrow> fetch
      | Some Unreadable \<Rightarrow> (Inl ReadError, fs)
      | Some Malformed \<Rightarrow> fetch
      | Some (Doc cache_data) \<Rightarrow>
          (case cache_data base_currency of
             None \<Rightarrow> fetch
           | Some entry \<Rightarrow>
               (case timestamp entry of
                  None \<Rightarrow> fetch
                | Some ts \<Rightarrow>
                    if now e - ts < cache_timeout then
                      (case rates entry of
                         None \<Rightarrow> fetch
                       | Some tbl \<Rightarrow> (Inr tbl, fs))
                    else fetch)))"

text \<open>
  \<open>convert_currency\<close>: \<^verbatim>\<open>target_currency in rates\<close>, then the index and the product. The
  \<^verbatim>\<open>except Exception\<close> around the whole body wraps every exception alike: the fetching error,
  the function's own "not found", and what \<^verbatim>\<open>in\<close> or the index raise on a value that is
  not an object.
\<close>

definition convert_currency ::
  "'v::times env \<Rightarrow> 'v store \<Rightarrow> currency \<Rightarrow> currency \<Rightarrow> 'v \<Rightarrow> (error + 'v) \<times> 'v store" where
  "convert_currency e fs base_currency target_currency amount =
     (case get_exchange_rate e fs base_currency of
        (Inl err, fs') \<Rightarrow> (Inl (ConversionError err), fs')
      | (Inr tbl, fs') \<Rightarrow>
          (case contains tbl target_currency of
             Inl err \<Rightarrow> (Inl (ConversionError err), fs')
           | Inr present \<Rightarrow>
               if present then
                 (case item tbl target_currency of
                    Inl err \<Rightarrow> (Inl (ConversionError err), fs')
                  | Inr r \<Rightarrow> (Inr (amount * r), fs'))
               else (Inl (ConversionError (CurrencyNotFound target_currency)), fs')))"

section \<open>The historical series\<close>

text \<open>
  The loop \<^verbatim>\<open>for i in range(1, days)\<close> of \<open>get_historical_rates\<close>, over the offsets still to
  visit, with the two lists built so far. For a day whose snapshot holds the target, the
  date is appended first (line 200) and the rate is looked up after it (line 201). Whatever
  raises (a snapshot file that cannot be read, does not parse or has no \<^verbatim>\<open>"rates"\<close>, a
  membership test or an index that raises) is caught by the function's \<^verbatim>\<open>try\<close>: the loop
  stops and the lists are returned as they are at that point.
\<close>

fun walk_back ::
  "'v store \<Rightarrow> currency \<Rightarrow> currency \<Rightarrow> day \<Rightarrow> int list \<Rightarrow> day list \<times> 'v list
     \<Rightarrow> day list \<times> 'v list" where
  "walk_back fs base_currency target_currency tday [] (dates, rs) = (dates, rs)"
| "walk_back fs base_currency target_currency tday (i # offsets) (dates, rs) =
     (let date = tday - i in
      case historical fs (base_currency, date) of
        None \<Rightarrow> walk_back fs base_currency target_currency tday offsets (dates, rs)
      | Some Unreadable \<Rightarrow> (dates, rs)
      | Some Malformed \<Rightarrow> (dates, rs)
      | Some (Doc data) \<Rightarrow>
          (case rates data of
             None \<Rightarrow> (dates, rs)
           | Some tbl \<Rightarrow>
               (case contains tbl target_currency of
                  Inl err \<Rightarrow> (dates, rs)
                | Inr present \<Rightarrow>
                    if present then
                      (case item tbl target_currency of
                         Inl err \<Rightarrow> (dates @ [date], rs)
                       | Inr r \<Rightarrow>
                           walk_back fs base_currency target_currency tday offsets
                             (dates @ [date], rs @ [r]))
                    else walk_back fs base_currency target_currency tday offsets (dates, rs))))"

text \<open>
  \<open>get_historical_rates\<close>: today's date (line 187) and then today's rate (line 188), the
  walk over the previous days, and both lists reversed at the end. The function never
  raises: its \<^verbatim>\<open>except Exception\<close> prints the error and goes on to the \<^verbatim>\<open>return\<close>, with the
  lists as they are.
\<close>

definition get_historical_rates ::
  "'v env \<Rightarrow> 'v store \<Rightarrow> currency \<Rightarrow> currency \<Rightarrow> int \<Rightarrow> (day list \<times> 'v list) \<times> 'v store" where
  "get_historical_rates e fs base_currency target_currency days =
     (case get_exchange_rate e fs base_currency of
        (Inl err, fs') \<Rightarrow> (([], []), fs')
      | (Inr current_rates, fs') \<Rightarrow>
          (case contains current_rates target_currency of
             Inl err \<Rightarrow> (([], []), fs')
           | Inr present \<Rightarrow>
               if present then
                 (case item current_rates target_currency of
                    Inl err \<Rightarrow> ((rev [today e], rev []), fs')
                  | Inr r \<Rightarrow>
                      (let (dates, rs) =
                             walk_back fs' base_currency target_currency (today e)
                               [1..days - 1] ([today e], [r])
                       in ((rev dates, rev rs), fs')))
               else (([], []), fs')))"

section \<open>The cache entry of the data model\<close>

text \<open>
  The persisted mapping from base currencies to entries: what the cache file holds when it
  parses, and nothing otherwise.
\<close>

definition cache_mapping :: "'v store \<Rightarrow> (currency \<rightharpoonup> 'v cache_entry)" where
  "cache_mapping fs =
     (case cache_file fs of
        Some (Doc cache_data) \<Rightarrow> cache_data
      | _ \<Rightarrow> Map.empty)"

text \<open>
  The entry of a base currency as the data model describes it: the timestamp and the rate
  table stored under the base in the persisted mapping. There is none when the base is
  not a key or when one of the two fields is missing.
\<close>

definition cache_entry_of :: "'v store \<Rightarrow> currency \<Rightarrow> (real \<times> 'v rates_value) option" where
  "cache_entry_of fs base_currency =
     (case cache_mapping fs base_currency of
        None \<Rightarrow> None
      | Some entry \<Rightarrow>
          (case timestamp entry of
             None \<Rightarrow> None
           | Some ts \<Rightarrow>
               (case rates entry of
                  None \<Rightarrow> None
                | Some tbl \<Rightarrow> Some (ts, tbl))))"

section \<open>Example states\<close>

text \<open>
  A provider that answers every base with the table \<^verbatim>\<open>{"EUR": 0.9}\<close>, and one that is down.
  In all the example environments the files can be written.
\<close>

definition mock_table :: "real rates_value" where
  "mock_table = Table [''EUR'' \<mapsto> 0.9]"

definition mock_env :: "real env" where
  "mock_env = \<lparr>now = 90000, today = 20000, provider = (\<lambda>b. Body (Some mock_table)),
      cache_writable = True, snapshot_writable = True\<rparr>"

definition offline_env :: "real env" where
  "offline_env =
     \<lparr>now = 90000, today = 20000, provider = (\<lambda>b. Failed),
      cache_writable = True, snapshot_writable = True\<rparr>"

text \<open>A provider whose table for every base lacks EUR.\<close>

definition yen_env :: "real env" where
  "yen_env =
     \<lparr>now = 90000, today = 20000, provider = (\<lambda>b. Body (Some (Table [''JPY'' \<mapsto> 150]))),
      cache_writable = True, snapshot_writable = True\<rparr>"

text \<open>A provider whose body is \<^verbatim>\<open>{"rates": ["EUR", "GBP"]}\<close>: an array where a table belongs.\<close>

definition array_env :: "real env" where
  "array_env =
     \<lparr>now = 90000, today = 20000,
      provider = (\<lambda>b. Body (Some (Elements [''EUR'', ''GBP'']))),
      cache_writable = True, snapshot_writable = True\<rparr>"

text \<open>A freshly installed instance: no cache file, no snapshot.\<close>

definition new_store :: "real store" where
  "new_store = \<lparr>cache_file = None, historical = Map.empty\<rparr>"

text \<open>Snapshots of USD for three of the six days before day 20000, and no cache file.\<close>

definition sparse_store :: "real store" where
  "sparse_store =
     \<lparr>cache_file = None,
      historical =
        [(''USD'', 19999) \<mapsto>
           Doc \<lparr>timestamp = Some 100, rates = Some (Table [''EUR'' \<mapsto> 0.8])\<rparr>,
         (''USD'', 19997) \<mapsto>
           Doc \<lparr>timestamp = Some 50, rates = Some (Table [''EUR'' \<mapsto> 0.7])\<rparr>,
         (''USD'', 19995) \<mapsto>
           Doc \<lparr>timestamp = Some 10, rates = Some (Table [''EUR'' \<mapsto> 0.6])\<rparr>]\<rparr>"

text \<open>
  No cache file, and one snapshot of USD, of the day before day 20000, whose content is
  \<^verbatim>\<open>{"timestamp": 100, "rates": ["EUR"]}\<close>.
\<close>

definition array_store :: "real store" where
  "array_store =
     \<lparr>cache_file = None,
      historical =
        [(''USD'', 19999) \<mapsto> Doc \<lparr>timestamp = Some 100, rates = Some (Elements [''EUR''])\<rparr>]\<rparr>"

text \<open>A cache file holding one entry of USD written at second 88000, and one of GBP.\<close>

definition warm_store :: "real store" where
  "warm_store =
     \<lparr>cache_file =
        Some (Doc
          [''USD'' \<mapsto> \<lparr>timestamp = Some 88000, rates = Some (Table [''EUR'' \<mapsto> 0.5])\<rparr>,
           ''GBP'' \<mapsto> \<lparr>timestamp = Some 1000, rates = Some (Table [''EUR'' \<mapsto> 1.2])\<rparr>]),
      historical = Map.empty\<rparr>"

text \<open>A cache file whose bytes cannot be decoded, or that may not be opened.\<close>

definition broken_store :: "real store" where
  "broken_store = \<lparr>cache_file = Some Unreadable, historical = Map.empty\<rparr>"

text \<open>The same unreadable cache file, beside the three snapshots of USD.\<close>

definition broken_sparse_store :: "real store" where
  "broken_sparse_store = sparse_store\<lparr>cache_file := Some Unreadable\<rparr>"

section \<open>Properties of the walk\<close>




section \<open>Properties of the fetch\<close>

lemma get_exchange_rate_error_kind:
  "fst (get_exchange_rate e fs b) = Inl err \<Longrightarrow> err = ReadError \<or> err = FetchingError"
  by (auto simp: get_exchange_rate_def Let_def
      split: option.splits json_file.splits response.splits sum.splits if_splits)

lemma cache_rates_readable:
  "cache_file fs \<noteq> Some Unreadable \<Longrightarrow>
   cache_rates e fs b tbl =
     Inr (fs\<lparr>cache_file :=
            Some (Doc ((cache_mapping fs)
              (b \<mapsto> \<lparr>timestamp = Some (now e), rates = Some tbl\<rparr>)))\<rparr>)"
  by (auto simp: cache_rates_def load_cache_def cache_mapping_def
      split: option.splits json_file.splits)

lemma cache_entry_of_fresh_hit:
  "cache_entry_of fs b = Some (ts, tbl) \<Longrightarrow> now e - ts < cache_timeout \<Longrightarrow>
   get_exchange_rate e fs b = (Inr tbl, fs)"
  by (auto simp: cache_entry_of_def cache_mapping_def get_exchange_rate_def Let_def
      split: option.splits json_file.splits)

lemma no_fresh_entry_fetch:
  "\<not> (\<exists>ts tbl. cache_entry_of fs b = Some (ts, tbl) \<and> now e - ts < cache_timeout) \<Longrightarrow>
   cache_file fs \<noteq> Some Unreadable \<Longrightarrow>
   get_exchange_rate e fs b =
     (case provider e b of
        Failed \<Rightarrow> (Inl FetchingError, fs)
      | Body None \<Rightarrow> (Inl FetchingError, fs)
      | Body (Some tbl) \<Rightarrow>
          (case cache_rates_call e fs b tbl of
             Inl err \<Rightarrow> (Inl FetchingError, fs)
           | Inr cached \<Rightarrow>
               (case store_historical_call e cached b tbl of
                  Inl err \<Rightarrow> (Inl FetchingError, cached)
                | Inr stored \<Rightarrow> (Inr tbl, stored))))"
  by (auto simp: cache_entry_of_def cache_mapping_def get_exchange_rate_def Let_def
      split: option.splits json_file.splits)

lemma cache_file_store_historical:
  "cache_file (store_historical e fs b tbl) = cache_file fs"
  by (simp add: store_historical_def split: option.splits)

text \<open>
  What holds of the freshness policy. A fresh entry (both fields present, less than 3600
  seconds old) is returned and nothing is written. With no such entry, a cache file that
  can be read (or is missing), files that can be written and a provider that answers with
  a body holding \<^verbatim>\<open>"rates"\<close>, that value is returned and the store is the one
  \<open>_cache_rates\<close> followed by \<open>_store_historical\<close> produce.
\<close>

lemma fresh_entry_or_fetch:
  "(cache_entry_of fs b = Some (ts, tbl) \<and> now e - ts < 3600 \<longrightarrow>
      get_exchange_rate e fs b = (Inr tbl, fs)) \<and>
   (\<not> (\<exists>ts tbl. cache_entry_of fs b = Some (ts, tbl) \<and> now e - ts < 3600) \<and>
    cache_file fs \<noteq> Some Unreadable \<and> cache_writable e \<and> snapshot_writable e \<and>
    provider e b = Body (Some fetched) \<longrightarrow>
      (\<exists>cached. cache_rates e fs b fetched = Inr cached \<and>
         get_exchange_rate e fs b = (Inr fetched, store_historical e cached b fetched)))"
  using cache_entry_of_fresh_hit [of fs b ts tbl e] no_fresh_entry_fetch [of fs b e]
    cache_rates_readable [of fs e b fetched]
  by (simp add: cache_timeout_def cache_rates_call_def store_historical_call_def)

text \<open>
  A failing write of today's snapshot makes the call fail with the cache file already
  rewritten.
\<close>

lemma snapshot_write_failure:
  assumes "cache_file fs = None" and "historical fs (b, today e) = None"
    and "provider e b = Body (Some tbl)" and "cache_writable e" and "\<not> snapshot_writable e"
  shows "get_exchange_rate e fs b =
    (Inl FetchingError,
     fs\<lparr>cache_file := Some (Doc [b \<mapsto> \<lparr>timestamp = Some (now e), rates = Some tbl\<rparr>])\<rparr>)"
  using assms
  by (simp add: get_exchange_rate_def cache_rates_call_def store_historical_call_def
      cache_rates_def load_cache_def)

text \<open>
  What the handlers of the cache do recover from. A cache file that \<^verbatim>\<open>json.load\<close> rejects
  is an empty cache to both readers: \<open>_cache_rates\<close> starts from the empty dictionary, and
  \<open>get_exchange_rate\<close> returns what it returns when there is no cache file, and leaves the
  same store when it returns a value. Likewise an entry of the base that lacks its
  timestamp or its rates counts as no entry.
\<close>

lemma malformed_cache_as_empty:
  assumes "cache_file fs = Some Malformed"
  shows "load_cache fs = Inr Map.empty"
    and "cache_rates e fs b tbl = cache_rates e (fs\<lparr>cache_file := None\<rparr>) b tbl"
    and "fst (get_exchange_rate e fs b) = fst (get_exchange_rate e (fs\<lparr>cache_file := None\<rparr>) b)"
    and "fst (get_exchange_rate e fs b) = Inr tbl \<Longrightarrow>
         get_exchange_rate e fs b = get_exchange_rate e (fs\<lparr>cache_file := None\<rparr>) b"
  using assms
  by (auto simp: get_exchange_rate_def cache_rates_call_def store_historical_call_def
      cache_rates_def load_cache_def split: response.splits option.splits if_splits)

lemma incomplete_entry_as_absent:
  assumes "cache_file fs = Some (Doc cache_data)" and "cache_data b = Some entry"
    and "timestamp entry = None \<or> rates entry = None"
  shows "fst (get_exchange_rate e fs b) =
         fst (get_exchange_rate e (fs\<lparr>cache_file := Some (Doc (cache_data(b := None)))\<rparr>) b)"
  using assms
  by (auto simp: get_exchange_rate_def cache_rates_call_def store_historical_call_def
      cache_rates_def load_cache_def Let_def split: response.splits option.splits)

section \<open>Properties of the series\<close>







section \<open>Properties of the snapshot write\<close>

lemma store_historical_defined:
  "historical (store_historical e fs b tbl) (b, today e) \<noteq> None"
  by (simp add: store_historical_def split: option.splits)

lemma store_historical_noop:
  "historical fs (b, today e) \<noteq> None \<Longrightarrow> store_historical e fs b tbl = fs"
  by (auto simp: store_historical_def split: option.splits)

lemma later_writes_noop:
  "historical fs (b, d) \<noteq> None \<Longrightarrow> \<forall>w\<in>set later. today (fst w) = d \<Longrightarrow>
   foldl (\<lambda>s w. store_historical (fst w) s b (snd w)) fs later = fs"
  by (induction later) (simp_all add: store_historical_noop)

section \<open>Properties of the conversion\<close>

text \<open>
  When the value returned for the base is an object with the target as a key,
  \<open>convert_currency\<close> returns the product of the amount, whatever it is, and the rate under
  the target. No property of the product is used or stated.
\<close>

lemma convert_currency_product:
  assumes "fst (get_exchange_rate e fs b) = Inr (Table tbl)" and "tbl t = Some r"
  shows "fst (convert_currency e fs b t amount) = Inr (amount * r)"
proof (cases "get_exchange_rate e fs b")
  case (Pair res fs')
  with assms show ?thesis by (simp add: convert_currency_def)
qed

section \<open>The claims\<close>

text \<open>
  C1 fails on the code, by the defect of C7. The cache file exists and cannot be read, so
  there is no cache entry of the base, and the provider is up: \<open>get_exchange_rate\<close> does
  not fetch, write and return the fetched table; the exception of the read leaves the
  function and nothing is written. With the cache file absent instead, the same call
  returns the provider's table.
\<close>

theorem unreadable_cache_blocks_fetch:
  "cache_entry_of broken_sparse_store ''GBP'' = None \<and>
   provider mock_env ''GBP'' = Body (Some mock_table) \<and>
   get_exchange_rate mock_env broken_sparse_store ''GBP'' = (Inl ReadError, broken_sparse_store) \<and>
   fst (get_exchange_rate mock_env sparse_store ''GBP'') = Inr mock_table"
  by (simp add: cache_entry_of_def cache_mapping_def get_exchange_rate_def cache_rates_call_def store_historical_call_def cache_rates_def
      load_cache_def mock_env_def sparse_store_def broken_sparse_store_def)

text \<open>
  C2, as the code has it. When today's table cannot be obtained, \<open>get_historical_rates\<close>
  does not fail: it returns two empty lists.
\<close>

theorem get_historical_rates_fetch_failure:
  assumes "fst (get_exchange_rate e fs base_currency) = Inl err"
  shows "fst (get_historical_rates e fs base_currency target_currency days) = ([], [])"
proof (cases "get_exchange_rate e fs base_currency")
  case (Pair res fs')
  with assms show ?thesis by (simp add: get_historical_rates_def)
qed

theorem get_historical_rates_fetch_failure_witness:
  "fst (get_exchange_rate offline_env new_store ''USD'') = Inl FetchingError \<and>
   fst (get_historical_rates offline_env new_store ''USD'' ''EUR'' 7) = ([], [])"
proof -
  have down: "fst (get_exchange_rate offline_env new_store ''USD'') = Inl FetchingError"
    by (simp add: get_exchange_rate_def offline_env_def new_store_def)
  from get_historical_rates_fetch_failure [OF down, of "''EUR''" 7] down
  show ?thesis by simp
qed

text \<open>
  C2 as stated fails: with the provider down, and snapshots of earlier days in the store,
  the call returns the empty series instead of failing.
\<close>

theorem get_historical_rates_fetch_failure_counterexample:
  "fst (get_exchange_rate offline_env sparse_store ''USD'') = Inl FetchingError \<and>
   historical sparse_store (''USD'', 19999) =
     Some (Doc \<lparr>timestamp = Some 100, rates = Some (Table [''EUR'' \<mapsto> 0.8])\<rparr>) \<and>
   fst (get_historical_rates offline_env sparse_store ''USD'' ''EUR'' 7) = ([], [])"
  by (simp add: get_historical_rates_def get_exchange_rate_def offline_env_def sparse_store_def)




text \<open>
  C5. \<open>convert_currency\<close> fails with the "currency not found" error of the target
  exactly when \<open>get_exchange_rate\<close> returns a value and the target is absent from it: the
  test \<^verbatim>\<open>target_currency in rates\<close> answers no, which for a rate table means that the target
  is not one of its keys.
\<close>

theorem convert_currency_unknown_iff:
  "fst (convert_currency e fs base_currency target_currency amount) =
     Inl (ConversionError (CurrencyNotFound target_currency)) \<longleftrightarrow>
   (\<exists>tbl. fst (get_exchange_rate e fs base_currency) = Inr tbl \<and>
      contains tbl target_currency = Inr False)"
proof (cases "get_exchange_rate e fs base_currency")
  case (Pair res fs')
  show ?thesis
  proof (cases res)
    case (Inl err)
    with Pair have "err = ReadError \<or> err = FetchingError"
      using get_exchange_rate_error_kind [of e fs base_currency err] by simp
    with Pair Inl show ?thesis by (auto simp: convert_currency_def)
  next
    case (Inr tbl)
    with Pair show ?thesis
      by (cases tbl) (auto simp: convert_currency_def split: option.splits)
  qed
qed

theorem convert_currency_unknown_iff_witness:
  "fst (convert_currency mock_env new_store ''USD'' ''ZZZ'' 100) =
     Inl (ConversionError (CurrencyNotFound ''ZZZ'')) \<and>
   fst (get_exchange_rate mock_env new_store ''USD'') = Inr mock_table \<and>
   contains mock_table ''ZZZ'' = Inr False \<and>
   fst (convert_currency offline_env new_store ''USD'' ''ZZZ'' 100) =
     Inl (ConversionError FetchingError)"
proof -
  have live: "fst (get_exchange_rate mock_env new_store ''USD'') = Inr mock_table"
    by (simp add: get_exchange_rate_def cache_rates_call_def store_historical_call_def cache_rates_def load_cache_def mock_env_def
        new_store_def)
  have zzz: "contains mock_table ''ZZZ'' = Inr False"
    by (simp add: mock_table_def)
  have down: "fst (convert_currency offline_env new_store ''USD'' ''ZZZ'' 100) =
     Inl (ConversionError FetchingError)"
    by (simp add: convert_currency_def get_exchange_rate_def offline_env_def new_store_def)
  from convert_currency_unknown_iff [of mock_env new_store "''USD''" "''ZZZ''" 100] live zzz
  have "fst (convert_currency mock_env new_store ''USD'' ''ZZZ'' 100) =
     Inl (ConversionError (CurrencyNotFound ''ZZZ''))"
    by blast
  with live zzz down show ?thesis by simp
qed

text \<open>
  C6. \<open>_store_historical\<close> leaves the store as it is when a snapshot of the base and of
  today's date exists; otherwise it stores the table under that key. After one call, any
  sequence of later calls on the same day, with any tables, changes nothing, so the
  snapshot stays the one of the first write. No other snapshot and no part of the cache
  file is touched.
\<close>

theorem store_historical_first_write_wins:
  "(historical fs (base_currency, today e) = Some snap \<longrightarrow>
      store_historical e fs base_currency tbl = fs) \<and>
   (historical fs (base_currency, today e) = None \<longrightarrow>
      historical (store_historical e fs base_currency tbl) (base_currency, today e) =
        Some (Doc \<lparr>timestamp = Some (now e), rates = Some tbl\<rparr>)) \<and>
   ((\<forall>w\<in>set later. today (fst w) = today e) \<longrightarrow>
      foldl (\<lambda>s w. store_historical (fst w) s base_currency (snd w))
        (store_historical e fs base_currency tbl) later =
      store_historical e fs base_currency tbl) \<and>
   (\<forall>key. key \<noteq> (base_currency, today e) \<longrightarrow>
      historical (store_historical e fs base_currency tbl) key = historical fs key) \<and>
   cache_file (store_historical e fs base_currency tbl) = cache_file fs"
proof (intro conjI impI allI)
  assume "historical fs (base_currency, today e) = Some snap"
  then show "store_historical e fs base_currency tbl = fs"
    by (simp add: store_historical_noop)
next
  assume "historical fs (base_currency, today e) = None"
  then show "historical (store_historical e fs base_currency tbl) (base_currency, today e) =
        Some (Doc \<lparr>timestamp = Some (now e), rates = Some tbl\<rparr>)"
    by (simp add: store_historical_def)
next
  assume "\<forall>w\<in>set later. today (fst w) = today e"
  then show "foldl (\<lambda>s w. store_historical (fst w) s base_currency (snd w))
        (store_historical e fs base_currency tbl) later =
      store_historical e fs base_currency tbl"
    using store_historical_defined [of e fs base_currency tbl]
    by (intro later_writes_noop [where d = "today e"]) simp_all
next
  fix key :: "currency \<times> day"
  assume "key \<noteq> (base_currency, today e)"
  then show "historical (store_historical e fs base_currency tbl) key = historical fs key"
    by (simp add: store_historical_def split: option.splits)
next
  show "cache_file (store_historical e fs base_currency tbl) = cache_file fs"
    by (rule cache_file_store_historical)
qed

theorem store_historical_first_write_wins_witness:
  "historical (store_historical mock_env new_store ''USD'' mock_table) (''USD'', 20000) =
     Some (Doc \<lparr>timestamp = Some 90000, rates = Some mock_table\<rparr>) \<and>
   store_historical yen_env (store_historical mock_env new_store ''USD'' mock_table)
       ''USD'' (Table [''JPY'' \<mapsto> 150]) =
     store_historical mock_env new_store ''USD'' mock_table \<and>
   store_historical yen_env (sparse_store\<lparr>historical :=
       (historical sparse_store)((''USD'', 20000) \<mapsto> Malformed)\<rparr>) ''USD'' (Table [''JPY'' \<mapsto> 150]) =
     sparse_store\<lparr>historical := (historical sparse_store)((''USD'', 20000) \<mapsto> Malformed)\<rparr>"
proof -
  have fresh: "historical new_store (''USD'', today mock_env) = None"
    by (simp add: new_store_def)
  have same_day: "\<forall>w\<in>set [(yen_env, Table [''JPY'' \<mapsto> 150::real])]. today (fst w) = today mock_env"
    by (simp add: yen_env_def mock_env_def)
  from store_historical_first_write_wins
    [of new_store "''USD''" mock_env Malformed mock_table "[(yen_env, (Table [''JPY'' \<mapsto> 150]))]"]
    fresh same_day
  have first: "historical (store_historical mock_env new_store ''USD'' mock_table)
        (''USD'', today mock_env) =
      Some (Doc \<lparr>timestamp = Some (now mock_env), rates = Some mock_table\<rparr>)"
    and later: "foldl (\<lambda>s w. store_historical (fst w) s ''USD'' (snd w))
        (store_historical mock_env new_store ''USD'' mock_table)
        [(yen_env, (Table [''JPY'' \<mapsto> 150]))] =
      store_historical mock_env new_store ''USD'' mock_table"
    by blast+
  from later have second:
    "store_historical yen_env (store_historical mock_env new_store ''USD'' mock_table)
       ''USD'' (Table [''JPY'' \<mapsto> 150]) =
     store_historical mock_env new_store ''USD'' mock_table"
    by simp
  from first have stored:
    "historical (store_historical mock_env new_store ''USD'' mock_table) (''USD'', 20000) =
     Some (Doc \<lparr>timestamp = Some 90000, rates = Some mock_table\<rparr>)"
    by (simp add: mock_env_def)
  have taken: "historical (sparse_store\<lparr>historical :=
       (historical sparse_store)((''USD'', 20000) \<mapsto> Malformed)\<rparr>) (''USD'', today yen_env) =
     Some Malformed"
    by (simp add: yen_env_def)
  from store_historical_first_write_wins
    [of "sparse_store\<lparr>historical := (historical sparse_store)((''USD'', 20000) \<mapsto> Malformed)\<rparr>"
      "''USD''" yen_env Malformed "(Table [''JPY'' \<mapsto> 150])" "[]"] taken
  have kept: "store_historical yen_env (sparse_store\<lparr>historical :=
       (historical sparse_store)((''USD'', 20000) \<mapsto> Malformed)\<rparr>) ''USD'' (Table [''JPY'' \<mapsto> 150]) =
     sparse_store\<lparr>historical := (historical sparse_store)((''USD'', 20000) \<mapsto> Malformed)\<rparr>"
    by blast
  from second stored kept show ?thesis by simp
qed

text \<open>
  C7 fails on the code. With a cache file that exists and cannot be read, and a provider
  that is up, \<open>get_exchange_rate\<close> does not go on to the fetch as it does without a cache
  file: the exception of the read leaves the function, and \<open>convert_currency\<close> reports it
  to its caller.
\<close>

theorem unreadable_cache_surfaces:
  "provider mock_env ''USD'' = Body (Some mock_table) \<and>
   fst (get_exchange_rate mock_env new_store ''USD'') = Inr mock_table \<and>
   get_exchange_rate mock_env broken_store ''USD'' = (Inl ReadError, broken_store) \<and>
   fst (convert_currency mock_env broken_store ''USD'' ''EUR'' 100) =
     Inl (ConversionError ReadError)"
  by (simp add: convert_currency_def get_exchange_rate_def cache_rates_call_def store_historical_call_def cache_rates_def load_cache_def
      mock_env_def new_store_def broken_store_def)

text \<open>
  C8. When \<open>_cache_rates\<close> writes, the persisted mapping holds, under the base, the new
  table with the current timestamp, and under every other base what it held before; the
  snapshots are not touched. It writes whenever the cache file can be read (or is
  missing); on an unreadable file it raises and nothing is written.
\<close>

theorem cache_rates_frame:
  "(cache_rates e fs base_currency tbl = Inr cached \<longrightarrow>
      cache_mapping cached base_currency =
        Some \<lparr>timestamp = Some (now e), rates = Some tbl\<rparr> \<and>
      (\<forall>other. other \<noteq> base_currency \<longrightarrow>
         cache_mapping cached other = cache_mapping fs other) \<and>
      historical cached = historical fs) \<and>
   (cache_file fs \<noteq> Some Unreadable \<longrightarrow>
      (\<exists>written. cache_rates e fs base_currency tbl = Inr written)) \<and>
   (cache_file fs = Some (Doc cache_data) \<longrightarrow>
      cache_rates e fs base_currency tbl =
        Inr (fs\<lparr>cache_file := Some (Doc (cache_data
          (base_currency \<mapsto> \<lparr>timestamp = Some (now e), rates = Some tbl\<rparr>)))\<rparr>))"
proof (intro conjI impI allI)
  assume ok: "cache_rates e fs base_currency tbl = Inr cached"
  then have readable: "cache_file fs \<noteq> Some Unreadable"
    by (auto simp: cache_rates_def load_cache_def)
  from ok cache_rates_readable [OF readable, of e base_currency tbl]
  have cached: "cached = fs\<lparr>cache_file :=
      Some (Doc ((cache_mapping fs)
        (base_currency \<mapsto> \<lparr>timestamp = Some (now e), rates = Some tbl\<rparr>)))\<rparr>"
    by simp
  show "cache_mapping cached base_currency = Some \<lparr>timestamp = Some (now e), rates = Some tbl\<rparr>"
    by (simp add: cached cache_mapping_def)
  show "historical cached = historical fs"
    by (simp add: cached)
  fix other :: currency
  assume "other \<noteq> base_currency"
  then show "cache_mapping cached other = cache_mapping fs other"
    by (simp add: cached cache_mapping_def)
next
  assume "cache_file fs \<noteq> Some Unreadable"
  then show "\<exists>written. cache_rates e fs base_currency tbl = Inr written"
    by (simp add: cache_rates_readable)
next
  assume "cache_file fs = Some (Doc cache_data)"
  then show "cache_rates e fs base_currency tbl =
        Inr (fs\<lparr>cache_file := Some (Doc (cache_data
          (base_currency \<mapsto> \<lparr>timestamp = Some (now e), rates = Some tbl\<rparr>)))\<rparr>)"
    by (simp add: cache_rates_def load_cache_def)
qed

theorem cache_rates_frame_witness:
  "(\<exists>written. cache_rates mock_env warm_store ''USD'' mock_table = Inr written \<and>
      cache_mapping written ''USD'' = Some \<lparr>timestamp = Some 90000, rates = Some mock_table\<rparr> \<and>
      cache_mapping written ''GBP'' =
        Some \<lparr>timestamp = Some 1000, rates = Some (Table [''EUR'' \<mapsto> 1.2])\<rparr>)"
proof -
  have other: "''GBP'' \<noteq> ''USD''" by simp
  have before: "cache_mapping warm_store ''GBP'' =
      Some \<lparr>timestamp = Some 1000, rates = Some (Table [''EUR'' \<mapsto> 1.2])\<rparr>"
    by (simp add: cache_mapping_def warm_store_def)
  have on_disk: "cache_file warm_store =
      Some (Doc [''USD'' \<mapsto> \<lparr>timestamp = Some 88000, rates = Some (Table [''EUR'' \<mapsto> 0.5])\<rparr>,
                 ''GBP'' \<mapsto> \<lparr>timestamp = Some 1000, rates = Some (Table [''EUR'' \<mapsto> 1.2])\<rparr>])"
    by (simp add: warm_store_def)
  then have readable: "cache_file warm_store \<noteq> Some Unreadable" by simp
  from cache_rates_frame
    [where e = mock_env and fs = warm_store and base_currency = "''USD''" and tbl = mock_table
       and cache_data =
         "[''USD'' \<mapsto> \<lparr>timestamp = Some 88000, rates = Some (Table [''EUR'' \<mapsto> 0.5])\<rparr>,
           ''GBP'' \<mapsto> \<lparr>timestamp = Some 1000, rates = Some (Table [''EUR'' \<mapsto> 1.2])\<rparr>]"]
    on_disk
  have written: "cache_rates mock_env warm_store ''USD'' mock_table =
      Inr (warm_store\<lparr>cache_file := Some (Doc
        ([''USD'' \<mapsto> \<lparr>timestamp = Some 88000, rates = Some (Table [''EUR'' \<mapsto> 0.5])\<rparr>,
          ''GBP'' \<mapsto> \<lparr>timestamp = Some 1000, rates = Some (Table [''EUR'' \<mapsto> 1.2])\<rparr>]
         (''USD'' \<mapsto> \<lparr>timestamp = Some (now mock_env), rates = Some mock_table\<rparr>)))\<rparr>)"
    by blast
  from cache_rates_frame
    [where e = mock_env and fs = warm_store and base_currency = "''USD''" and tbl = mock_table
       and cached = "warm_store\<lparr>cache_file := Some (Doc
        ([''USD'' \<mapsto> \<lparr>timestamp = Some 88000, rates = Some (Table [''EUR'' \<mapsto> 0.5])\<rparr>,
          ''GBP'' \<mapsto> \<lparr>timestamp = Some 1000, rates = Some (Table [''EUR'' \<mapsto> 1.2])\<rparr>]
         (''USD'' \<mapsto> \<lparr>timestamp = Some (now mock_env), rates = Some mock_table\<rparr>)))\<rparr>"]
    written other before readable
  show ?thesis by (auto simp: mock_env_def)
qed

text \<open>
  C9 fails on the code. The date of a day is appended before its rate is looked up, and
  the lookup raises when the value under \<^verbatim>\<open>"rates"\<close> holds the target without being an
  object. With yesterday's snapshot \<^verbatim>\<open>{"timestamp": 100, "rates": ["EUR"]}\<close> and today's
  table \<^verbatim>\<open>{"EUR": 0.9}\<close> the call returns two dates and one rate; with a provider whose
  \<^verbatim>\<open>"rates"\<close> is the array \<^verbatim>\<open>["EUR", "GBP"]\<close> it returns today's date and no rate.
\<close>

theorem dates_outnumber_rates:
  "historical array_store (''USD'', 19999) =
     Some (Doc \<lparr>timestamp = Some 100, rates = Some (Elements [''EUR''])\<rparr>) \<and>
   fst (get_historical_rates mock_env array_store ''USD'' ''EUR'' 7) = ([19999, 20000], [0.9]) \<and>
   provider array_env ''USD'' = Body (Some (Elements [''EUR'', ''GBP''])) \<and>
   fst (get_historical_rates array_env new_store ''USD'' ''EUR'' 7) = ([20000], [])"
  by (simp add: get_historical_rates_def get_exchange_rate_def cache_rates_call_def store_historical_call_def cache_rates_def
      store_historical_def load_cache_def mock_env_def mock_table_def array_env_def
      array_store_def new_store_def upto_rec1)

text \<open>
  C10. When today's table is obtained and the target is absent from it (the membership
  test answers no; for a rate table, the target is not one of its keys),
  \<open>get_historical_rates\<close> returns two empty lists, whatever snapshots the store holds.
\<close>

theorem get_historical_rates_target_absent:
  assumes "fst (get_exchange_rate e fs base_currency) = Inr current_rates"
    and "contains current_rates target_currency = Inr False"
  shows "fst (get_historical_rates e fs base_currency target_currency days) = ([], [])"
proof (cases "get_exchange_rate e fs base_currency")
  case (Pair res fs')
  with assms show ?thesis by (simp add: get_historical_rates_def)
qed

theorem get_historical_rates_target_absent_witness:
  "fst (get_exchange_rate yen_env sparse_store ''USD'') = Inr (Table [''JPY'' \<mapsto> 150]) \<and>
   historical sparse_store (''USD'', 19999) =
     Some (Doc \<lparr>timestamp = Some 100, rates = Some (Table [''EUR'' \<mapsto> 0.8])\<rparr>) \<and>
   fst (get_historical_rates yen_env sparse_store ''USD'' ''EUR'' 7) = ([], [])"
proof -
  have live: "fst (get_exchange_rate yen_env sparse_store ''USD'') = Inr (Table [''JPY'' \<mapsto> 150])"
    by (simp add: get_exchange_rate_def cache_rates_call_def store_historical_call_def cache_rates_def load_cache_def yen_env_def
        sparse_store_def)
  have absent: "contains (Table [''JPY'' \<mapsto> 150::real]) ''EUR'' = Inr False" by simp
  have snap: "historical sparse_store (''USD'', 19999) =
     Some (Doc \<lparr>timestamp = Some 100, rates = Some (Table [''EUR'' \<mapsto> 0.8])\<rparr>)"
    by (simp add: sparse_store_def)
  from get_historical_rates_target_absent [OF live absent, of 7] live snap
  show ?thesis by simp
qed

end
